theory Spec2Isabelle
  imports Main
begin

section \<open>Values the stores handle\<close>

text \<open>
  Go's \<^verbatim>\<open>time.Time\<close> is modelled as the number of nanoseconds since the Unix epoch and
  \<^verbatim>\<open>time.Duration\<close> as a number of nanoseconds, both unbounded. \<^verbatim>\<open>Time.Add\<close> is
  addition. \<^verbatim>\<open>Time.Second\<close> is the second offset within the minute, in the range 0..59
  (for UTC and every zone whose offset is a whole number of minutes).
\<close>

type_synonym Time = int
type_synonym Duration = int
type_synonym bytes = string

definition Add :: "Time \<Rightarrow> Duration \<Rightarrow> Time" where
  "Add t d = t + d"

definition Second :: "Time \<Rightarrow> int" where
  "Second t = (t div 1000000000) mod 60"

definition seconds :: "int \<Rightarrow> Duration" where
  "seconds n = n * 1000000000"

text \<open>
  The driver writes a \<^verbatim>\<open>time.Time\<close> field as a BSON datetime, a whole number of
  milliseconds since the epoch (\<^verbatim>\<open>t.Unix()*1e3 + t.Nanosecond()/1e6\<close>): what is stored is
  the instant cut down to the millisecond.
\<close>

definition truncate_ms :: "Time \<Rightarrow> Time" where
  "truncate_ms t = (t div 1000000) * 1000000"

definition zeroTime :: Time where
  "zeroTime = - 62135596800000000000"

datatype error =
    ErrNoDocuments
  | DuplicateKey
  | StorageError string
  | JSONError string

text \<open>The struct \<^verbatim>\<open>client\<close> of client_store.go (also the shape of \<^verbatim>\<open>models.Client\<close>).\<close>

record client =
  ID :: string
  Secret :: string
  Domain :: string
  UserID :: string

text \<open>The structs \<^verbatim>\<open>basicData\<close> and \<^verbatim>\<open>tokenData\<close> of token_store.go.\<close>

record basicData =
  bID :: string
  bData :: bytes
  bExpiredAt :: Time

record tokenData =
  tID :: string
  tBasicID :: string
  tExpiredAt :: Time

text \<open>
  The getters of \<^verbatim>\<open>oauth2.TokenInfo\<close> that token_store.go reads; the other fields of
  the interface are never read by the stores.
\<close>

record TokenInfo =
  Code :: string
  CodeCreateAt :: Time
  CodeExpiresIn :: Duration
  Access :: string
  AccessCreateAt :: Time
  AccessExpiresIn :: Duration
  Refresh :: string
  RefreshCreateAt :: Time
  RefreshExpiresIn :: Duration

definition zeroToken :: TokenInfo where
  "zeroToken = \<lparr>Code = [], CodeCreateAt = zeroTime, CodeExpiresIn = 0,
     Access = [], AccessCreateAt = zeroTime, AccessExpiresIn = 0,
     Refresh = [], RefreshCreateAt = zeroTime, RefreshExpiresIn = 0\<rparr>"

record TokenConfig =
  TxnCName :: string
  BasicCName :: string
  AccessCName :: string
  RefreshCName :: string

definition NewDefaultTokenConfig :: TokenConfig where
  "NewDefaultTokenConfig = \<lparr>TxnCName = ''oauth2_txn'', BasicCName = ''oauth2_basic'',
     AccessCName = ''oauth2_access'', RefreshCName = ''oauth2_refresh''\<rparr>"

record ClientConfig =
  ClientsCName :: string

definition NewDefaultClientConfig :: ClientConfig where
  "NewDefaultClientConfig = \<lparr>ClientsCName = ''oauth2_clients''\<rparr>"

section \<open>The document database\<close>

text \<open>
  A document is the struct value handed to \<^verbatim>\<open>InsertOne\<close>, as encoded. A collection maps the
  \<^verbatim>\<open>_id\<close> field to the document, and the database maps a collection name to its
  collection.

  The driver attaches an operation to a session's transaction only when the context given
  to the operation is that session's \<^verbatim>\<open>SessionContext\<close>; under any other context the
  operation is applied to the committed data at once. \<^verbatim>\<open>pending\<close> holds the writes of
  the transaction in progress (\<open>None\<close> when no transaction is open).
\<close>

datatype doc = ClientDoc client | BasicDoc basicData | TokenDoc tokenData

fun doc_id :: "doc \<Rightarrow> string" where
  "doc_id (ClientDoc c) = ID c"
| "doc_id (BasicDoc b) = bID b"
| "doc_id (TokenDoc t) = tID t"

text \<open>The document as the database holds it after encoding: datetimes in whole milliseconds.\<close>

fun bson :: "doc \<Rightarrow> doc" where
  "bson (ClientDoc c) = ClientDoc c"
| "bson (BasicDoc b) = BasicDoc (b\<lparr>bExpiredAt := truncate_ms (bExpiredAt b)\<rparr>)"
| "bson (TokenDoc t) = TokenDoc (t\<lparr>tExpiredAt := truncate_ms (tExpiredAt t)\<rparr>)"

type_synonym store = "string \<Rightarrow> string \<rightharpoonup> doc"

datatype Context = Background | SessionContext

datatype mutation = Insert string doc | Delete string string

record mongo =
  data :: store
  pending :: "mutation list option"

fun apply_write :: "mutation \<Rightarrow> store \<Rightarrow> store" where
  "apply_write (Insert n d) st = st(n := (st n)(doc_id d \<mapsto> d))"
| "apply_write (Delete n i) st = st(n := (st n)(i := None))"

definition visible :: "Context \<Rightarrow> mongo \<Rightarrow> store" where
  "visible c s =
     (case (c, pending s) of
        (SessionContext, Some ws) \<Rightarrow> fold apply_write ws (data s)
      | _ \<Rightarrow> data s)"

definition submit :: "Context \<Rightarrow> mutation \<Rightarrow> mongo \<Rightarrow> mongo" where
  "submit c w s =
     (case (c, pending s) of
        (SessionContext, Some ws) \<Rightarrow> s\<lparr>pending := Some (ws @ [w])\<rparr>
      | _ \<Rightarrow> s\<lparr>data := apply_write w (data s)\<rparr>)"

definition InsertOne :: "Context \<Rightarrow> string \<Rightarrow> doc \<Rightarrow> mongo \<Rightarrow> error option \<times> mongo" where
  "InsertOne c n d s =
     (if visible c s n (doc_id d) \<noteq> None then (Some DuplicateKey, s)
      else (None, submit c (Insert n (bson d)) s))"

definition DeleteOne :: "Context \<Rightarrow> string \<Rightarrow> string \<Rightarrow> mongo \<Rightarrow> error option \<times> mongo" where
  "DeleteOne c n i s = (None, submit c (Delete n i) s)"

definition FindOne :: "Context \<Rightarrow> string \<Rightarrow> string \<Rightarrow> mongo \<Rightarrow> error + doc" where
  "FindOne c n i s = (case visible c s n i of None \<Rightarrow> Inl ErrNoDocuments | Some d \<Rightarrow> Inr d)"

text \<open>
  \<^verbatim>\<open>Decode\<close> fills the fields of the target struct whose bson tag occurs in the
  document and leaves the others at their zero value.
\<close>

fun decode_client :: "doc \<Rightarrow> client" where
  "decode_client (ClientDoc c) = c"
| "decode_client (BasicDoc b) = \<lparr>ID = bID b, Secret = [], Domain = [], UserID = []\<rparr>"
| "decode_client (TokenDoc t) = \<lparr>ID = tID t, Secret = [], Domain = [], UserID = []\<rparr>"

fun decode_basicData :: "doc \<Rightarrow> basicData" where
  "decode_basicData (BasicDoc b) = b"
| "decode_basicData (TokenDoc t) = \<lparr>bID = tID t, bData = [], bExpiredAt = tExpiredAt t\<rparr>"
| "decode_basicData (ClientDoc c) = \<lparr>bID = ID c, bData = [], bExpiredAt = zeroTime\<rparr>"

fun decode_tokenData :: "doc \<Rightarrow> tokenData" where
  "decode_tokenData (TokenDoc t) = t"
| "decode_tokenData (BasicDoc b) = \<lparr>tID = bID b, tBasicID = [], tExpiredAt = bExpiredAt b\<rparr>"
| "decode_tokenData (ClientDoc c) = \<lparr>tID = ID c, tBasicID = [], tExpiredAt = zeroTime\<rparr>"

text \<open>
  What the program does not decide itself: the results of the driver's
  \<^verbatim>\<open>AbortTransaction\<close> and \<^verbatim>\<open>CommitTransaction\<close> calls, the identifier produced by
  \<^verbatim>\<open>primitive.NewObjectID().Hex()\<close>, the order in which \<^verbatim>\<open>range\<close> visits the keys of a
  Go map (keys are visited by ascending rank), and the JSON codec of the token record.
\<close>

record runtime =
  abortResult :: "error option"
  commitResult :: "error option"
  NewObjectIDHex :: string
  rangeRank :: "string \<Rightarrow> nat"
  jsonMarshal :: "TokenInfo \<Rightarrow> bytes \<times> error option"
  jsonUnmarshal :: "bytes \<Rightarrow> TokenInfo \<Rightarrow> TokenInfo \<times> error option"

definition StartTransaction :: "mongo \<Rightarrow> mongo" where
  "StartTransaction s = s\<lparr>pending := Some []\<rparr>"

definition AbortTransaction :: "runtime \<Rightarrow> mongo \<Rightarrow> error option \<times> mongo" where
  "AbortTransaction rt s = (abortResult rt, s\<lparr>pending := None\<rparr>)"

definition CommitTransaction :: "runtime \<Rightarrow> mongo \<Rightarrow> error option \<times> mongo" where
  "CommitTransaction rt s =
     (case commitResult rt of
        Some e \<Rightarrow> (Some e, s\<lparr>pending := None\<rparr>)
      | None \<Rightarrow> (None, s\<lparr>data := fold apply_write (case pending s of None \<Rightarrow> [] | Some ws \<Rightarrow> ws) (data s),
                          pending := None\<rparr>))"

section \<open>The transaction wrappers\<close>

text \<open>
  \<^verbatim>\<open>colHandler\<close> (both stores) and \<^verbatim>\<open>dbHandler\<close>: start a transaction on the session,
  run the callback with a context made from \<^verbatim>\<open>context.Background()\<close>, and return the
  result of \<^verbatim>\<open>AbortTransaction\<close> when the callback returned an error, of
  \<^verbatim>\<open>CommitTransaction\<close> otherwise. The callback's captured variables are the \<open>'v\<close>
  component; a collection handle is its name.
\<close>

definition colHandler ::
  "runtime \<Rightarrow> string \<Rightarrow> (Context \<Rightarrow> string \<Rightarrow> 'v \<Rightarrow> mongo \<Rightarrow> error option \<times> 'v \<times> mongo)
     \<Rightarrow> 'v \<Rightarrow> mongo \<Rightarrow> error option \<times> 'v \<times> mongo" where
  "colHandler rt name fn v s =
     (case fn Background name v (StartTransaction s) of
        (Some err, v', s') \<Rightarrow> (case AbortTransaction rt s' of (r, s'') \<Rightarrow> (r, v', s''))
      | (None, v', s') \<Rightarrow> (case CommitTransaction rt s' of (r, s'') \<Rightarrow> (r, v', s'')))"

definition dbHandler ::
  "runtime \<Rightarrow> (Context \<Rightarrow> 'v \<Rightarrow> mongo \<Rightarrow> error option \<times> 'v \<times> mongo)
     \<Rightarrow> 'v \<Rightarrow> mongo \<Rightarrow> error option \<times> 'v \<times> mongo" where
  "dbHandler rt fn v s =
     (case fn Background v (StartTransaction s) of
        (Some err, v', s') \<Rightarrow> (case AbortTransaction rt s' of (r, s'') \<Rightarrow> (r, v', s''))
      | (None, v', s') \<Rightarrow> (case CommitTransaction rt s' of (r, s'') \<Rightarrow> (r, v', s'')))"

section \<open>Client store\<close>

definition Set_client :: "ClientConfig \<Rightarrow> runtime \<Rightarrow> client \<Rightarrow> mongo \<Rightarrow> error option \<times> mongo" where
  "Set_client ccfg rt info s =
     (case colHandler rt (ClientsCName ccfg)
             (\<lambda>ctx c (u::unit) s1.
                let entity = \<lparr>ID = ID info, Secret = Secret info,
                              Domain = Domain info, UserID = UserID info\<rparr>
                in case InsertOne ctx c (ClientDoc entity) s1 of (err, s2) \<Rightarrow> (err, u, s2))
             () s of
        (err, u, s') \<Rightarrow> (err, s'))"

definition GetByID :: "ClientConfig \<Rightarrow> runtime \<Rightarrow> string \<Rightarrow> mongo \<Rightarrow> (client option \<times> error option) \<times> mongo" where
  "GetByID ccfg rt i s =
     (case colHandler rt (ClientsCName ccfg)
             (\<lambda>ctx c (info::client option) s1.
                case FindOne ctx c i s1 of
                  Inl err \<Rightarrow> (Some err, info, s1)
                | Inr d \<Rightarrow>
                    let entity = decode_client d
                    in (None, Some \<lparr>ID = ID entity, Secret = Secret entity,
                                     Domain = Domain entity, UserID = UserID entity\<rparr>, s1))
             None s of
        (err, info, s') \<Rightarrow> ((info, err), s'))"

definition RemoveByID :: "ClientConfig \<Rightarrow> runtime \<Rightarrow> string \<Rightarrow> mongo \<Rightarrow> error option \<times> mongo" where
  "RemoveByID ccfg rt i s =
     (case colHandler rt (ClientsCName ccfg)
             (\<lambda>ctx c (u::unit) s1. case DeleteOne ctx c i s1 of (err, s2) \<Rightarrow> (err, u, s2))
             () s of
        (err, u, s') \<Rightarrow> (err, s'))"

section \<open>Token store\<close>

text \<open>
  \<^verbatim>\<open>Create\<close>, lines 173 to 181: the expiry of the access row and the expiry of the
  refresh row and of the basic payload.
\<close>

definition Create_expiry :: "TokenInfo \<Rightarrow> Time \<times> Time" where
  "Create_expiry info =
     (let aexp = Add (AccessCreateAt info) (AccessExpiresIn info);
          rexp = aexp
      in if Refresh info \<noteq> [] then
           (let rexp = Add (RefreshCreateAt info) (RefreshExpiresIn info)
            in if Second aexp > Second rexp then (rexp, rexp) else (aexp, rexp))
         else (aexp, rexp))"

text \<open>
  A Go map from collection names to documents, as an association list with unique keys:
  \<^verbatim>\<open>m[k] = v\<close> replaces the value of a key already there.
\<close>

fun map_assign :: "string \<Rightarrow> doc \<Rightarrow> (string \<times> doc) list \<Rightarrow> (string \<times> doc) list" where
  "map_assign k v [] = [(k, v)]"
| "map_assign k v ((k', v') # m) =
     (if k = k' then (k, v) # m else (k', v') # map_assign k v m)"

definition range_map :: "runtime \<Rightarrow> (string \<times> doc) list \<Rightarrow> (string \<times> doc) list" where
  "range_map rt m = sort_key (\<lambda>kv. rangeRank rt (fst kv)) m"

text \<open>\<^verbatim>\<open>Create\<close>, lines 184 to 206: the payloads of an access/refresh grant.\<close>

definition Create_payloads :: "TokenConfig \<Rightarrow> string \<Rightarrow> bytes \<Rightarrow> TokenInfo \<Rightarrow> (string \<times> doc) list" where
  "Create_payloads tcfg i jv info =
     (let (aexp, rexp) = Create_expiry info;
          payloads = [];
          payloads = map_assign (BasicCName tcfg)
                       (BasicDoc \<lparr>bID = i, bData = jv, bExpiredAt = rexp\<rparr>) payloads;
          payloads = map_assign (AccessCName tcfg)
                       (TokenDoc \<lparr>tID = Access info, tBasicID = i, tExpiredAt = aexp\<rparr>) payloads
      in if Refresh info \<noteq> [] then
           map_assign (RefreshCName tcfg)
             (TokenDoc \<lparr>tID = Refresh info, tBasicID = i, tExpiredAt = rexp\<rparr>) payloads
         else payloads)"

text \<open>The loop of lines 209 to 215: insert each payload, stop at the first error.\<close>

fun insertPayloads :: "Context \<Rightarrow> (string \<times> doc) list \<Rightarrow> mongo \<Rightarrow> error option \<times> mongo" where
  "insertPayloads ctx [] s = (None, s)"
| "insertPayloads ctx (kv # ps) s =
     (case InsertOne ctx (fst kv) (snd kv) s of
        (Some err, s') \<Rightarrow> (Some err, s')
      | (None, s') \<Rightarrow> insertPayloads ctx ps s')"

definition Create :: "TokenConfig \<Rightarrow> runtime \<Rightarrow> TokenInfo \<Rightarrow> mongo \<Rightarrow> error option \<times> mongo" where
  "Create tcfg rt info s =
     (case jsonMarshal rt info of
        (jv, Some err) \<Rightarrow> (Some err, s)
      | (jv, None) \<Rightarrow>
          if Code info \<noteq> [] then
            (case colHandler rt (BasicCName tcfg)
                    (\<lambda>ctx c (u::unit) s1.
                       case InsertOne ctx c
                              (BasicDoc \<lparr>bID = Code info, bData = jv,
                                 bExpiredAt = Add (CodeCreateAt info) (CodeExpiresIn info)\<rparr>) s1 of
                         (err, s2) \<Rightarrow> (err, u, s2))
                    () s of
               (err, u, s') \<Rightarrow> (err, s'))
          else
            (let payloads = Create_payloads tcfg (NewObjectIDHex rt) jv info
             in case dbHandler rt
                       (\<lambda>ctx (u::unit) s1.
                          case insertPayloads ctx (range_map rt payloads) s1 of
                            (err, s2) \<Rightarrow> (err, u, s2))
                       () s of
                  (err, u, s') \<Rightarrow> (err, s')))"

definition RemoveByCode :: "TokenConfig \<Rightarrow> runtime \<Rightarrow> string \<Rightarrow> mongo \<Rightarrow> error option \<times> mongo" where
  "RemoveByCode tcfg rt code s =
     (case colHandler rt (BasicCName tcfg)
             (\<lambda>ctx c (u::unit) s1. case DeleteOne ctx c code s1 of (err, s2) \<Rightarrow> (err, u, s2))
             () s of
        (err, u, s') \<Rightarrow> (err, s'))"

definition RemoveByAccess :: "TokenConfig \<Rightarrow> runtime \<Rightarrow> string \<Rightarrow> mongo \<Rightarrow> error option \<times> mongo" where
  "RemoveByAccess tcfg rt access s =
     (case colHandler rt (AccessCName tcfg)
             (\<lambda>ctx c (u::unit) s1. case DeleteOne ctx c access s1 of (err, s2) \<Rightarrow> (err, u, s2))
             () s of
        (err, u, s') \<Rightarrow> (err, s'))"

definition RemoveByRefresh :: "TokenConfig \<Rightarrow> runtime \<Rightarrow> string \<Rightarrow> mongo \<Rightarrow> error option \<times> mongo" where
  "RemoveByRefresh tcfg rt refresh s =
     (case colHandler rt (RefreshCName tcfg)
             (\<lambda>ctx c (u::unit) s1. case DeleteOne ctx c refresh s1 of (err, s2) \<Rightarrow> (err, u, s2))
             () s of
        (err, u, s') \<Rightarrow> (err, s'))"

text \<open>
  \<^verbatim>\<open>getData\<close> returns the address of its local \<^verbatim>\<open>tm\<close> in every case, so its first
  result is always a token record; \<^verbatim>\<open>GetByAccess\<close> and \<^verbatim>\<open>GetByRefresh\<close> may return
  \<^verbatim>\<open>nil\<close>, which is \<open>None\<close>.
\<close>

definition getData :: "TokenConfig \<Rightarrow> runtime \<Rightarrow> string \<Rightarrow> mongo \<Rightarrow> (TokenInfo \<times> error option) \<times> mongo" where
  "getData tcfg rt basicID s =
     (case colHandler rt (BasicCName tcfg)
             (\<lambda>ctx c tm s1.
                case FindOne ctx c basicID s1 of
                  Inl err \<Rightarrow> (Some err, tm, s1)
                | Inr d \<Rightarrow>
                    (let bd = decode_basicData d
                     in case jsonUnmarshal rt (bData bd) tm of (tm', err) \<Rightarrow> (err, tm', s1)))
             zeroToken s of
        (err, tm, s') \<Rightarrow> ((tm, err), s'))"

definition getBasicID :: "TokenConfig \<Rightarrow> runtime \<Rightarrow> string \<Rightarrow> string \<Rightarrow> mongo \<Rightarrow> (string \<times> error option) \<times> mongo" where
  "getBasicID tcfg rt cname token s =
     (case colHandler rt cname
             (\<lambda>ctx c basicID s1.
                case FindOne ctx c token s1 of
                  Inl err \<Rightarrow> (Some err, basicID, s1)
                | Inr d \<Rightarrow> (let td = decode_tokenData d in (None, tBasicID td, s1)))
             [] s of
        (err, basicID, s') \<Rightarrow> ((basicID, err), s'))"

definition GetByCode :: "TokenConfig \<Rightarrow> runtime \<Rightarrow> string \<Rightarrow> mongo \<Rightarrow> (TokenInfo option \<times> error option) \<times> mongo" where
  "GetByCode tcfg rt code s =
     (case getData tcfg rt code s of ((tm, err), s') \<Rightarrow> ((Some tm, err), s'))"

definition GetByAccess :: "TokenConfig \<Rightarrow> runtime \<Rightarrow> string \<Rightarrow> mongo \<Rightarrow> (TokenInfo option \<times> error option) \<times> mongo" where
  "GetByAccess tcfg rt access s =
     (case getBasicID tcfg rt (AccessCName tcfg) access s of
        ((basicID, err), s') \<Rightarrow>
          if err \<noteq> None \<and> basicID = [] then ((None, err), s')
          else (case getData tcfg rt basicID s' of ((tm, err'), s'') \<Rightarrow> ((Some tm, err'), s'')))"

definition GetByRefresh :: "TokenConfig \<Rightarrow> runtime \<Rightarrow> string \<Rightarrow> mongo \<Rightarrow> (TokenInfo option \<times> error option) \<times> mongo" where
  "GetByRefresh tcfg rt refresh s =
     (case getBasicID tcfg rt (RefreshCName tcfg) refresh s of
        ((basicID, err), s') \<Rightarrow>
          if err \<noteq> None \<and> basicID = [] then ((None, err), s')
          else (case getData tcfg rt basicID s' of ((tm, err'), s'') \<Rightarrow> ((Some tm, err'), s'')))"

section \<open>Properties of stored states\<close>

text \<open>
  Every \<^verbatim>\<open>InsertOne\<close> that a call of \<^verbatim>\<open>Create\<close> issues in state \<open>s\<close> is accepted:
  the token record serialises and no document of the call meets a stored \<^verbatim>\<open>_id\<close>.
\<close>

definition Create_accepted :: "TokenConfig \<Rightarrow> runtime \<Rightarrow> TokenInfo \<Rightarrow> mongo \<Rightarrow> bool" where
  "Create_accepted tcfg rt info s =
     (case jsonMarshal rt info of
        (jv, Some err) \<Rightarrow> False
      | (jv, None) \<Rightarrow>
          if Code info \<noteq> [] then data s (BasicCName tcfg) (Code info) = None
          else list_all (\<lambda>kv. data s (fst kv) (doc_id (snd kv)) = None)
                 (Create_payloads tcfg (NewObjectIDHex rt) jv info))"

definition emptyDB :: mongo where
  "emptyDB = \<lparr>data = (\<lambda>n. Map.empty), pending = None\<rparr>"

text \<open>
  Every row of the access and refresh collections carries a \<^verbatim>\<open>BasicID\<close> under which
  the basic collection holds a document.
\<close>

definition index_rows_resolve :: "TokenConfig \<Rightarrow> mongo \<Rightarrow> bool" where
  "index_rows_resolve tcfg s =
     (\<forall>n t d. (n = AccessCName tcfg \<or> n = RefreshCName tcfg) \<longrightarrow> data s n t = Some d \<longrightarrow>
        data s (BasicCName tcfg) (tBasicID (decode_tokenData d)) \<noteq> None)"

section \<open>Example inputs\<close>

text \<open>
  A runtime in which abort and commit succeed, the generated identifier is \<open>i\<close>, a map's
  keys are visited by ascending length (basic, access, refresh under the default names),
  and the codec is a stand-in.
\<close>

definition exampleRuntime :: "string \<Rightarrow> runtime" where
  "exampleRuntime i =
     \<lparr>abortResult = None, commitResult = None, NewObjectIDHex = i, rangeRank = length,
      jsonMarshal = (\<lambda>info. (''{}'', None)), jsonUnmarshal = (\<lambda>b tm. (tm, None))\<rparr>"

definition exampleGrant :: "Time \<Rightarrow> TokenInfo" where
  "exampleGrant T =
     \<lparr>Code = [], CodeCreateAt = zeroTime, CodeExpiresIn = 0,
      Access = ''A1'', AccessCreateAt = T, AccessExpiresIn = seconds 3600,
      Refresh = ''R1'', RefreshCreateAt = T, RefreshExpiresIn = seconds 7200\<rparr>"

text \<open>
  A refreshed grant: the refresh token was created at second 0 with one hour to live, the
  access token at second 3000 with twenty minutes to live.
\<close>

definition lateGrant :: TokenInfo where
  "lateGrant =
     \<lparr>Code = [], CodeCreateAt = zeroTime, CodeExpiresIn = 0,
      Access = ''A2'', AccessCreateAt = seconds 3000, AccessExpiresIn = seconds 1200,
      Refresh = ''R2'', RefreshCreateAt = seconds 0, RefreshExpiresIn = seconds 3600\<rparr>"

text \<open>A token record that carries a code together with an access and a refresh token.\<close>

definition codeGrant :: TokenInfo where
  "codeGrant =
     \<lparr>Code = ''C3'', CodeCreateAt = seconds 100, CodeExpiresIn = seconds 600,
      Access = ''A3'', AccessCreateAt = seconds 100, AccessExpiresIn = seconds 3600,
      Refresh = ''R3'', RefreshCreateAt = seconds 100, RefreshExpiresIn = seconds 7200\<rparr>"

text \<open>
  A runtime like \<open>exampleRuntime i\<close> in which a map's keys are visited access, refresh,
  basic under the default names.
\<close>

definition accessFirstRuntime :: "string \<Rightarrow> runtime" where
  "accessFirstRuntime i =
     \<lparr>abortResult = None, commitResult = None, NewObjectIDHex = i,
      rangeRank = (\<lambda>k. if k = ''oauth2_access'' then 0 else if k = ''oauth2_refresh'' then 1 else 2),
      jsonMarshal = (\<lambda>info. (''{}'', None)), jsonUnmarshal = (\<lambda>b tm. (tm, None))\<rparr>"

text \<open>
  A renewed grant: a new access token \<open>A9\<close> issued at second 1800 beside the refresh token
  \<open>R1\<close> of \<open>exampleGrant 0\<close>, which is kept.
\<close>

definition renewedGrant :: TokenInfo where
  "renewedGrant =
     \<lparr>Code = [], CodeCreateAt = zeroTime, CodeExpiresIn = 0,
      Access = ''A9'', AccessCreateAt = seconds 1800, AccessExpiresIn = seconds 3600,
      Refresh = ''R1'', RefreshCreateAt = seconds 0, RefreshExpiresIn = seconds 7200\<rparr>"

text \<open>The documents of \<open>exampleGrant T\<close> under the default names and the identifier \<open>i\<close>.\<close>

definition exampleStored :: "string \<Rightarrow> Time \<Rightarrow> store" where
  "exampleStored i T = (\<lambda>n. Map.empty)
          (''oauth2_basic'' := [i \<mapsto>
             BasicDoc \<lparr>bID = i, bData = ''{}'', bExpiredAt = truncate_ms (Add T (seconds 7200))\<rparr>],
           ''oauth2_access'' := [''A1'' \<mapsto>
             TokenDoc \<lparr>tID = ''A1'', tBasicID = i, tExpiredAt = truncate_ms (Add T (seconds 3600))\<rparr>],
           ''oauth2_refresh'' := [''R1'' \<mapsto>
             TokenDoc \<lparr>tID = ''R1'', tBasicID = i, tExpiredAt = truncate_ms (Add T (seconds 7200))\<rparr>])"

section \<open>Operations under a background context\<close>

lemma doc_id_bson: "doc_id (bson d) = doc_id d"
  by (cases d) simp_all

lemma visible_Background: "visible Background s = data s"
  by (simp add: visible_def)

lemma submit_Background: "submit Background w s = s\<lparr>data := apply_write w (data s)\<rparr>"
  by (simp add: submit_def)

lemma InsertOne_Background:
  "InsertOne Background n d s =
     (if data s n (doc_id d) \<noteq> None then (Some DuplicateKey, s)
      else (None, s\<lparr>data := (data s)(n := (data s n)(doc_id d \<mapsto> bson d))\<rparr>))"
  by (simp add: InsertOne_def visible_Background submit_Background doc_id_bson)

lemma DeleteOne_Background:
  "DeleteOne Background n i s = (None, s\<lparr>data := (data s)(n := (data s n)(i := None))\<rparr>)"
  by (simp add: DeleteOne_def submit_Background)

lemma FindOne_Background:
  "FindOne Background n i s = (case data s n i of None \<Rightarrow> Inl ErrNoDocuments | Some d \<Rightarrow> Inr d)"
  by (simp add: FindOne_def visible_Background)

lemma data_StartTransaction: "data (StartTransaction s) = data s"
  by (simp add: StartTransaction_def)

lemma AbortTransaction_empty:
  "AbortTransaction rt (s\<lparr>pending := Some []\<rparr>) = (abortResult rt, s\<lparr>pending := None\<rparr>)"
  by (simp add: AbortTransaction_def)

lemma CommitTransaction_empty:
  "CommitTransaction rt (s\<lparr>pending := Some []\<rparr>) = (commitResult rt, s\<lparr>pending := None\<rparr>)"
  by (simp add: CommitTransaction_def split: option.splits)

text \<open>
  The transaction of the model does roll back: a write issued under the session context is
  dropped by abort and applied by commit.
\<close>

lemma session_insert_rolled_back:
  "data (snd (AbortTransaction rt (snd (InsertOne SessionContext n d (StartTransaction s))))) = data s"
  by (simp add: AbortTransaction_def InsertOne_def submit_def visible_def StartTransaction_def)

lemma session_insert_committed:
  "data s n (doc_id d) = None \<Longrightarrow> commitResult rt = None \<Longrightarrow>
   data (snd (CommitTransaction rt (snd (InsertOne SessionContext n d (StartTransaction s)))))
     = (data s)(n := (data s n)(doc_id d \<mapsto> bson d))"
  by (simp add: CommitTransaction_def InsertOne_def submit_def visible_def StartTransaction_def
      doc_id_bson)

lemma insertPayloads_pending:
  "pending (snd (insertPayloads Background ps s)) = pending s"
  by (induction ps arbitrary: s) (auto simp: InsertOne_Background split: prod.splits option.splits if_splits)

lemma insertPayloads_accepted:
  "distinct (map fst ps) \<Longrightarrow> (\<forall>kv\<in>set ps. data s (fst kv) (doc_id (snd kv)) = None) \<Longrightarrow>
   insertPayloads Background ps s =
     (None, s\<lparr>data := (\<lambda>n. case map_of ps n of None \<Rightarrow> data s n
                              | Some d \<Rightarrow> (data s n)(doc_id d \<mapsto> bson d))\<rparr>)"
proof (induction ps arbitrary: s)
  case Nil
  then show ?case by simp
next
  case (Cons kv ps)
  obtain n d where kv: "kv = (n, d)" by (cases kv)
  let ?s1 = "s\<lparr>data := (data s)(n := (data s n)(doc_id d \<mapsto> bson d))\<rparr>"
  have fresh: "data s n (doc_id d) = None" using Cons.prems(2) kv by simp
  have notin: "n \<notin> fst ` set ps" using Cons.prems(1) kv by simp
  have step: "InsertOne Background n d s = (None, ?s1)"
    using fresh by (simp add: InsertOne_Background)
  have rest: "\<forall>kv\<in>set ps. data ?s1 (fst kv) (doc_id (snd kv)) = None"
    using Cons.prems(2) notin by (auto simp: image_iff)
  have dist: "distinct (map fst ps)" using Cons.prems(1) by simp
  have mo: "map_of ps n = None" using notin by (simp add: map_of_eq_None_iff)
  have "insertPayloads Background (kv # ps) s = insertPayloads Background ps ?s1"
    using step kv by simp
  also have "\<dots> = (None, ?s1\<lparr>data := (\<lambda>m. case map_of ps m of None \<Rightarrow> data ?s1 m
                              | Some d' \<Rightarrow> (data ?s1 m)(doc_id d' \<mapsto> bson d'))\<rparr>)"
    by (rule Cons.IH[OF dist rest])
  also have "\<dots> = (None, s\<lparr>data := (\<lambda>m. case map_of (kv # ps) m of None \<Rightarrow> data s m
                              | Some d' \<Rightarrow> (data s m)(doc_id d' \<mapsto> bson d'))\<rparr>)"
    using mo kv by (auto simp: fun_eq_iff split: option.splits)
  finally show ?case .
qed

lemma map_of_range_map:
  "distinct (map fst m) \<Longrightarrow> map_of (range_map rt m) = map_of m"
  unfolding range_map_def
  by (rule map_of_inject_set[THEN iffD2]) (auto simp: distinct_map)

lemma distinct_range_map:
  "distinct (map fst m) \<Longrightarrow> distinct (map fst (range_map rt m))"
  unfolding range_map_def by (auto simp: distinct_map)

lemma set_range_map: "set (range_map rt m) = set m"
  by (simp add: range_map_def)

section \<open>What Create writes\<close>

lemma Create_marshal_error:
  "jsonMarshal rt info = (jv, Some e) \<Longrightarrow> Create tcfg rt info s = (Some e, s)"
  by (simp add: Create_def)

lemma Create_code_accepted:
  assumes "Code info \<noteq> []" "jsonMarshal rt info = (jv, None)"
    and "data s (BasicCName tcfg) (Code info) = None"
  shows "Create tcfg rt info s =
     (commitResult rt,
      s\<lparr>data := (data s)(BasicCName tcfg := (data s (BasicCName tcfg))(Code info \<mapsto>
            BasicDoc \<lparr>bID = Code info, bData = jv,
              bExpiredAt = truncate_ms (Add (CodeCreateAt info) (CodeExpiresIn info))\<rparr>)),
        pending := None\<rparr>)"
  using assms
  by (simp add: Create_def colHandler_def InsertOne_Background StartTransaction_def
      CommitTransaction_def split: option.splits)

lemma Create_code_rejected:
  assumes "Code info \<noteq> []" "jsonMarshal rt info = (jv, None)"
    and "data s (BasicCName tcfg) (Code info) \<noteq> None"
  shows "Create tcfg rt info s = (abortResult rt, s\<lparr>pending := None\<rparr>)"
  using assms
  by (auto simp add: Create_def colHandler_def InsertOne_Background StartTransaction_def
      AbortTransaction_def split: option.splits)

lemma Create_code_other_collections:
  assumes "Code info \<noteq> []" "n \<noteq> BasicCName tcfg"
  shows "data (snd (Create tcfg rt info s)) n = data s n"
proof (cases "jsonMarshal rt info")
  case (Pair jv e)
  show ?thesis
  proof (cases e)
    case (Some err)
    then show ?thesis using Pair by (simp add: Create_marshal_error)
  next
    case None
    show ?thesis
    proof (cases "data s (BasicCName tcfg) (Code info) = None")
      case True
      then show ?thesis using assms Pair None by (simp add: Create_code_accepted)
    next
      case False
      then show ?thesis using assms Pair None by (simp add: Create_code_rejected)
    qed
  qed
qed

lemma Create_payloads_refresh:
  assumes "Refresh info \<noteq> []"
    and "BasicCName tcfg \<noteq> AccessCName tcfg" "BasicCName tcfg \<noteq> RefreshCName tcfg"
    and "AccessCName tcfg \<noteq> RefreshCName tcfg"
  shows "Create_payloads tcfg i jv info =
     [(BasicCName tcfg, BasicDoc \<lparr>bID = i, bData = jv, bExpiredAt = snd (Create_expiry info)\<rparr>),
      (AccessCName tcfg, TokenDoc \<lparr>tID = Access info, tBasicID = i, tExpiredAt = fst (Create_expiry info)\<rparr>),
      (RefreshCName tcfg, TokenDoc \<lparr>tID = Refresh info, tBasicID = i, tExpiredAt = snd (Create_expiry info)\<rparr>)]"
  using assms by (simp add: Create_payloads_def Let_def split: prod.splits)

lemma Create_payloads_no_refresh:
  assumes "Refresh info = []"
    and "BasicCName tcfg \<noteq> AccessCName tcfg"
  shows "Create_payloads tcfg i jv info =
     [(BasicCName tcfg, BasicDoc \<lparr>bID = i, bData = jv, bExpiredAt = snd (Create_expiry info)\<rparr>),
      (AccessCName tcfg, TokenDoc \<lparr>tID = Access info, tBasicID = i, tExpiredAt = fst (Create_expiry info)\<rparr>)]"
  using assms by (simp add: Create_payloads_def Let_def split: prod.splits)

lemma Create_grant_accepted:
  assumes "Code info = []" "jsonMarshal rt info = (jv, None)"
    and ps: "ps = Create_payloads tcfg (NewObjectIDHex rt) jv info"
    and "distinct (map fst ps)"
    and "\<forall>kv\<in>set ps. data s (fst kv) (doc_id (snd kv)) = None"
  shows "Create tcfg rt info s =
     (commitResult rt,
      s\<lparr>data := (\<lambda>n. case map_of ps n of None \<Rightarrow> data s n
                         | Some d \<Rightarrow> (data s n)(doc_id d \<mapsto> bson d)),
        pending := None\<rparr>)"
proof -
  have d: "distinct (map fst (range_map rt ps))" using assms(4) by (rule distinct_range_map)
  have f: "\<forall>kv\<in>set (range_map rt ps). data (StartTransaction s) (fst kv) (doc_id (snd kv)) = None"
    using assms(5) by (simp add: set_range_map data_StartTransaction)
  have "insertPayloads Background (range_map rt ps) (StartTransaction s) =
      (None, (StartTransaction s)\<lparr>data := (\<lambda>n. case map_of ps n of None \<Rightarrow> data s n
                         | Some d \<Rightarrow> (data s n)(doc_id d \<mapsto> bson d))\<rparr>)"
    using insertPayloads_accepted[OF d f] assms(4)
    by (simp add: map_of_range_map data_StartTransaction cong: option.case_cong)
  then show ?thesis
    using assms(1,2) ps
    by (simp add: Create_def dbHandler_def Let_def StartTransaction_def CommitTransaction_def
        split: option.splits)
qed

lemma keys_map_assign:
  "map fst (map_assign k v m) = (if k \<in> set (map fst m) then map fst m else map fst m @ [k])"
  by (induction m) force+

lemma distinct_map_assign: "distinct (map fst m) \<Longrightarrow> distinct (map fst (map_assign k v m))"
  by (simp add: keys_map_assign)

lemma distinct_Create_payloads: "distinct (map fst (Create_payloads tcfg i jv info))"
  by (simp add: Create_payloads_def Let_def distinct_map_assign split: prod.splits)

lemma insertPayloads_rejected:
  "\<not> (\<forall>kv\<in>set ps. data s (fst kv) (doc_id (snd kv)) = None) \<Longrightarrow> distinct (map fst ps) \<Longrightarrow>
   fst (insertPayloads Background ps s) = Some DuplicateKey"
proof (induction ps arbitrary: s)
  case Nil then show ?case by simp
next
  case (Cons kv ps)
  show ?case
  proof (cases "data s (fst kv) (doc_id (snd kv)) = None")
    case False
    then show ?thesis by (simp add: InsertOne_Background)
  next
    case True
    let ?s1 = "s\<lparr>data := (data s)(fst kv := (data s (fst kv))(doc_id (snd kv) \<mapsto> bson (snd kv)))\<rparr>"
    from True Cons.prems(1) obtain kv' where kv': "kv' \<in> set ps" "data s (fst kv') (doc_id (snd kv')) \<noteq> None"
      by auto
    have "fst kv' \<noteq> fst kv" using Cons.prems(2) kv'(1) by (auto simp: image_iff)
    then have "data ?s1 (fst kv') (doc_id (snd kv')) \<noteq> None" using kv'(2) by simp
    then have "\<not> (\<forall>kv\<in>set ps. data ?s1 (fst kv) (doc_id (snd kv)) = None)"
      using kv'(1) by (intro notI) (drule bspec, assumption, simp)
    moreover have "distinct (map fst ps)" using Cons.prems(2) by simp
    ultimately have "fst (insertPayloads Background ps ?s1) = Some DuplicateKey" by (rule Cons.IH)
    then show ?thesis using True by (simp add: InsertOne_Background)
  qed
qed

lemma Create_result:
  assumes "jsonMarshal rt info = (jv, None)"
  shows "fst (Create tcfg rt info s) =
     (if Create_accepted tcfg rt info s then commitResult rt else abortResult rt)"
proof (cases "Code info \<noteq> []")
  case True
  then show ?thesis using assms
    by (cases "data s (BasicCName tcfg) (Code info) = None")
       (auto simp add: Create_accepted_def Create_code_accepted Create_code_rejected)
next
  case False
  let ?ps = "Create_payloads tcfg (NewObjectIDHex rt) jv info"
  have d: "distinct (map fst ?ps)" by (rule distinct_Create_payloads)
  show ?thesis
  proof (cases "\<forall>kv\<in>set ?ps. data s (fst kv) (doc_id (snd kv)) = None")
    case True
    then have "Create_accepted tcfg rt info s" using False assms
      by (simp add: Create_accepted_def list_all_iff)
    then show ?thesis using Create_grant_accepted[OF _ assms refl d True] False by simp
  next
    case F: False
    then have na: "\<not> Create_accepted tcfg rt info s" using False assms
      by (simp add: Create_accepted_def list_all_iff)
    have "\<not> (\<forall>kv\<in>set (range_map rt ?ps). data (StartTransaction s) (fst kv) (doc_id (snd kv)) = None)"
      using F by (simp add: set_range_map data_StartTransaction)
    then have "fst (insertPayloads Background (range_map rt ?ps) (StartTransaction s)) = Some DuplicateKey"
      using distinct_range_map[OF d] by (rule insertPayloads_rejected)
    then show ?thesis using na False assms
      by (auto simp add: Create_def dbHandler_def Let_def AbortTransaction_def split: prod.splits option.splits)
  qed
qed

lemma Second_plus_minutes: "Second (Add t (seconds (60 * k))) = Second t"
proof -
  have "(t + 60 * k * 1000000000) div 1000000000 = t div 1000000000 + 60 * k"
    by simp
  then show ?thesis by (simp add: Second_def Add_def seconds_def)
qed

lemma truncate_ms_Add_seconds: "truncate_ms (Add t (seconds n)) = Add (truncate_ms t) (seconds n)"
proof -
  have "t + n * 1000000000 = t + (n * 1000) * 1000000" by simp
  then have "(t + n * 1000000000) div 1000000 = t div 1000000 + n * 1000"
    by simp
  then show ?thesis by (simp add: truncate_ms_def seconds_def Add_def algebra_simps)
qed

lemma truncate_ms_seconds: "truncate_ms (seconds n) = seconds n"
  using truncate_ms_Add_seconds[of 0 n] by (simp add: Add_def truncate_ms_def)

lemma Create_grant_refresh_data:
  assumes "Code info = []" "Refresh info \<noteq> []" "jsonMarshal rt info = (jv, None)"
    and names: "BasicCName tcfg \<noteq> AccessCName tcfg" "BasicCName tcfg \<noteq> RefreshCName tcfg"
      "AccessCName tcfg \<noteq> RefreshCName tcfg"
    and fresh: "data s (BasicCName tcfg) (NewObjectIDHex rt) = None"
      "data s (AccessCName tcfg) (Access info) = None"
      "data s (RefreshCName tcfg) (Refresh info) = None"
  shows "Create tcfg rt info s =
     (commitResult rt,
      s\<lparr>data := (data s)
          (BasicCName tcfg := (data s (BasicCName tcfg))(NewObjectIDHex rt \<mapsto>
             BasicDoc \<lparr>bID = NewObjectIDHex rt, bData = jv, bExpiredAt = truncate_ms (snd (Create_expiry info))\<rparr>),
           AccessCName tcfg := (data s (AccessCName tcfg))(Access info \<mapsto>
             TokenDoc \<lparr>tID = Access info, tBasicID = NewObjectIDHex rt,
               tExpiredAt = truncate_ms (fst (Create_expiry info))\<rparr>),
           RefreshCName tcfg := (data s (RefreshCName tcfg))(Refresh info \<mapsto>
             TokenDoc \<lparr>tID = Refresh info, tBasicID = NewObjectIDHex rt,
               tExpiredAt = truncate_ms (snd (Create_expiry info))\<rparr>)),
        pending := None\<rparr>)"
proof -
  let ?ps = "Create_payloads tcfg (NewObjectIDHex rt) jv info"
  note ps = Create_payloads_refresh[OF assms(2) names, of "NewObjectIDHex rt" jv]
  have d: "distinct (map fst ?ps)" by (rule distinct_Create_payloads)
  have f: "\<forall>kv\<in>set ?ps. data s (fst kv) (doc_id (snd kv)) = None"
    using fresh by (simp add: ps)
  have "(\<lambda>n. case map_of ?ps n of None \<Rightarrow> data s n | Some d \<Rightarrow> (data s n)(doc_id d \<mapsto> bson d)) =
        (data s)
          (BasicCName tcfg := (data s (BasicCName tcfg))(NewObjectIDHex rt \<mapsto>
             BasicDoc \<lparr>bID = NewObjectIDHex rt, bData = jv, bExpiredAt = truncate_ms (snd (Create_expiry info))\<rparr>),
           AccessCName tcfg := (data s (AccessCName tcfg))(Access info \<mapsto>
             TokenDoc \<lparr>tID = Access info, tBasicID = NewObjectIDHex rt,
               tExpiredAt = truncate_ms (fst (Create_expiry info))\<rparr>),
           RefreshCName tcfg := (data s (RefreshCName tcfg))(Refresh info \<mapsto>
             TokenDoc \<lparr>tID = Refresh info, tBasicID = NewObjectIDHex rt,
               tExpiredAt = truncate_ms (snd (Create_expiry info))\<rparr>))"
    using names by (auto simp: ps fun_eq_iff)
  then show ?thesis
    using Create_grant_accepted[OF assms(1) assms(3) refl d f] by simp
qed

lemma Create_grant_no_refresh_data:
  assumes "Code info = []" "Refresh info = []" "jsonMarshal rt info = (jv, None)"
    and names: "BasicCName tcfg \<noteq> AccessCName tcfg"
    and fresh: "data s (BasicCName tcfg) (NewObjectIDHex rt) = None"
      "data s (AccessCName tcfg) (Access info) = None"
  shows "Create tcfg rt info s =
     (commitResult rt,
      s\<lparr>data := (data s)
          (BasicCName tcfg := (data s (BasicCName tcfg))(NewObjectIDHex rt \<mapsto>
             BasicDoc \<lparr>bID = NewObjectIDHex rt, bData = jv, bExpiredAt = truncate_ms (snd (Create_expiry info))\<rparr>),
           AccessCName tcfg := (data s (AccessCName tcfg))(Access info \<mapsto>
             TokenDoc \<lparr>tID = Access info, tBasicID = NewObjectIDHex rt,
               tExpiredAt = truncate_ms (fst (Create_expiry info))\<rparr>)),
        pending := None\<rparr>)"
proof -
  let ?ps = "Create_payloads tcfg (NewObjectIDHex rt) jv info"
  note ps = Create_payloads_no_refresh[OF assms(2) names, of "NewObjectIDHex rt" jv]
  have d: "distinct (map fst ?ps)" by (rule distinct_Create_payloads)
  have f: "\<forall>kv\<in>set ?ps. data s (fst kv) (doc_id (snd kv)) = None"
    using fresh by (simp add: ps)
  have "(\<lambda>n. case map_of ?ps n of None \<Rightarrow> data s n | Some d \<Rightarrow> (data s n)(doc_id d \<mapsto> bson d)) =
        (data s)
          (BasicCName tcfg := (data s (BasicCName tcfg))(NewObjectIDHex rt \<mapsto>
             BasicDoc \<lparr>bID = NewObjectIDHex rt, bData = jv, bExpiredAt = truncate_ms (snd (Create_expiry info))\<rparr>),
           AccessCName tcfg := (data s (AccessCName tcfg))(Access info \<mapsto>
             TokenDoc \<lparr>tID = Access info, tBasicID = NewObjectIDHex rt,
               tExpiredAt = truncate_ms (fst (Create_expiry info))\<rparr>))"
    using names by (auto simp: ps fun_eq_iff)
  then show ?thesis
    using Create_grant_accepted[OF assms(1) assms(3) refl d f] by simp
qed

section \<open>Lookups, removals and the client store\<close>

lemma getBasicID_Background:
  "fst (getBasicID tcfg rt cname token s) =
     (case data s cname token of
        None \<Rightarrow> ([], abortResult rt)
      | Some d \<Rightarrow> (tBasicID (decode_tokenData d), commitResult rt))"
  by (simp add: getBasicID_def colHandler_def FindOne_Background StartTransaction_def
      AbortTransaction_def CommitTransaction_def Let_def split: option.splits)

lemma RemoveByAccess_data:
  "data (snd (RemoveByAccess tcfg rt access s)) =
     (data s)(AccessCName tcfg := (data s (AccessCName tcfg))(access := None))"
  by (simp add: RemoveByAccess_def colHandler_def DeleteOne_Background StartTransaction_def
      CommitTransaction_def split: option.splits)

lemma default_names:
  "BasicCName NewDefaultTokenConfig = ''oauth2_basic''"
  "AccessCName NewDefaultTokenConfig = ''oauth2_access''"
  "RefreshCName NewDefaultTokenConfig = ''oauth2_refresh''"
  "ClientsCName NewDefaultClientConfig = ''oauth2_clients''"
  by (simp_all add: NewDefaultTokenConfig_def NewDefaultClientConfig_def)

lemma Create_expiry_exampleGrant:
  "Create_expiry (exampleGrant T) = (Add T (seconds 3600), Add T (seconds 7200))"
proof -
  have a: "Second (Add T (seconds 3600)) = Second T"
    using Second_plus_minutes[of T 60] by simp
  have r: "Second (Add T (seconds 7200)) = Second T"
    using Second_plus_minutes[of T 120] by simp
  show ?thesis using a r by (simp add: Create_expiry_def Let_def exampleGrant_def)
qed

lemma Create_exampleGrant:
  "Create NewDefaultTokenConfig (exampleRuntime i) (exampleGrant T) emptyDB =
     (None, \<lparr>data = exampleStored i T, pending = None\<rparr>)"
proof -
  have "Create NewDefaultTokenConfig (exampleRuntime i) (exampleGrant T) emptyDB =
     (commitResult (exampleRuntime i),
      emptyDB\<lparr>data := (data emptyDB)
          (BasicCName NewDefaultTokenConfig := (data emptyDB (BasicCName NewDefaultTokenConfig))(NewObjectIDHex (exampleRuntime i) \<mapsto>
             BasicDoc \<lparr>bID = NewObjectIDHex (exampleRuntime i), bData = ''{}'', bExpiredAt = truncate_ms (snd (Create_expiry (exampleGrant T)))\<rparr>),
           AccessCName NewDefaultTokenConfig := (data emptyDB (AccessCName NewDefaultTokenConfig))(Access (exampleGrant T) \<mapsto>
             TokenDoc \<lparr>tID = Access (exampleGrant T), tBasicID = NewObjectIDHex (exampleRuntime i),
               tExpiredAt = truncate_ms (fst (Create_expiry (exampleGrant T)))\<rparr>),
           RefreshCName NewDefaultTokenConfig := (data emptyDB (RefreshCName NewDefaultTokenConfig))(Refresh (exampleGrant T) \<mapsto>
             TokenDoc \<lparr>tID = Refresh (exampleGrant T), tBasicID = NewObjectIDHex (exampleRuntime i),
               tExpiredAt = truncate_ms (snd (Create_expiry (exampleGrant T)))\<rparr>)),
        pending := None\<rparr>)"
    by (rule Create_grant_refresh_data)
       (simp_all add: exampleGrant_def exampleRuntime_def NewDefaultTokenConfig_def emptyDB_def)
  then show ?thesis
    by (simp add: Create_expiry_exampleGrant exampleStored_def)
       (simp add: exampleGrant_def exampleRuntime_def NewDefaultTokenConfig_def emptyDB_def)
qed

lemma index_rows_resolve_Create:
  assumes names: "BasicCName tcfg \<noteq> AccessCName tcfg" "BasicCName tcfg \<noteq> RefreshCName tcfg"
      "AccessCName tcfg \<noteq> RefreshCName tcfg"
    and inv: "index_rows_resolve tcfg s"
    and acc: "Create_accepted tcfg rt info s"
  shows "index_rows_resolve tcfg (snd (Create tcfg rt info s))"
proof -
  obtain jv where m: "jsonMarshal rt info = (jv, None)"
    using acc by (auto simp: Create_accepted_def split: prod.splits option.splits)
  show ?thesis
  proof (cases "Code info \<noteq> []")
    case True
    then have "data s (BasicCName tcfg) (Code info) = None"
      using acc m by (simp add: Create_accepted_def)
    then show ?thesis
      using inv names True m
      by (auto simp: index_rows_resolve_def Create_code_accepted)
  next
    case False
    then have c: "Code info = []" by simp
    have all: "list_all (\<lambda>kv. data s (fst kv) (doc_id (snd kv)) = None)
                 (Create_payloads tcfg (NewObjectIDHex rt) jv info)"
      using acc m c by (simp add: Create_accepted_def)
    show ?thesis
    proof (cases "Refresh info = []")
      case True
      have f: "data s (BasicCName tcfg) (NewObjectIDHex rt) = None"
        "data s (AccessCName tcfg) (Access info) = None"
        using all by (simp_all add: Create_payloads_no_refresh[OF True names(1)])
      show ?thesis
        using inv names
        by (auto simp: index_rows_resolve_def
            Create_grant_no_refresh_data[OF c True m names(1) f] split: if_splits)
    next
      case R: False
      have f: "data s (BasicCName tcfg) (NewObjectIDHex rt) = None"
        "data s (AccessCName tcfg) (Access info) = None"
        "data s (RefreshCName tcfg) (Refresh info) = None"
        using all by (simp_all add: Create_payloads_refresh[OF R names])
      show ?thesis
        using inv names
        by (auto simp: index_rows_resolve_def
            Create_grant_refresh_data[OF c R m names f] split: if_splits)
    qed
  qed
qed

lemma Create_expiry_lateGrant: "Create_expiry lateGrant = (seconds 4200, seconds 3600)"
  by (simp add: Create_expiry_def lateGrant_def Let_def Add_def seconds_def Second_def)

lemma getData_Background:
  "fst (getData tcfg rt basicID s) =
     (case data s (BasicCName tcfg) basicID of
        None \<Rightarrow> (zeroToken, abortResult rt)
      | Some d \<Rightarrow>
          (case jsonUnmarshal rt (bData (decode_basicData d)) zeroToken of
             (tm, None) \<Rightarrow> (tm, commitResult rt)
           | (tm, Some e) \<Rightarrow> (tm, abortResult rt)))"
  by (simp add: getData_def colHandler_def FindOne_Background StartTransaction_def
      AbortTransaction_def CommitTransaction_def Let_def split: option.splits prod.splits)

lemma data_getBasicID: "data (snd (getBasicID tcfg rt cname token s)) = data s"
  by (simp add: getBasicID_def colHandler_def FindOne_Background StartTransaction_def
      AbortTransaction_def CommitTransaction_def Let_def split: option.splits prod.splits sum.splits)

lemma client_copy:
  "\<lparr>ID = ID info, Secret = Secret info, Domain = Domain info, UserID = UserID info\<rparr> = (info::client)"
  by (cases info) simp

lemma Set_client_data:
  "data (snd (Set_client ccfg rt info s)) =
     (if data s (ClientsCName ccfg) (ID info) = None
      then (data s)(ClientsCName ccfg := (data s (ClientsCName ccfg))(ID info \<mapsto> ClientDoc info))
      else data s)"
  by (simp add: Set_client_def colHandler_def InsertOne_Background StartTransaction_def
      AbortTransaction_def CommitTransaction_def Let_def client_copy split: option.splits)

lemma GetByID_Background:
  "fst (GetByID ccfg rt i s) =
     (case data s (ClientsCName ccfg) i of
        None \<Rightarrow> (None, abortResult rt)
      | Some d \<Rightarrow> (Some (decode_client d), commitResult rt))"
  by (simp add: GetByID_def colHandler_def FindOne_Background StartTransaction_def
      AbortTransaction_def CommitTransaction_def Let_def client_copy split: option.splits)

lemma RemoveByID_data:
  "data (snd (RemoveByID ccfg rt i s)) =
     (data s)(ClientsCName ccfg := (data s (ClientsCName ccfg))(i := None))"
  by (simp add: RemoveByID_def colHandler_def DeleteOne_Background StartTransaction_def
      CommitTransaction_def split: option.splits)

lemma Set_then_GetByID:
  "data s (ClientsCName ccfg) (ID info) = None \<Longrightarrow>
   fst (GetByID ccfg rt (ID info) (snd (Set_client ccfg rt' info s))) = (Some info, commitResult rt)"
  by (simp add: GetByID_Background Set_client_data)

lemma Create_renewedGrant:
  "Create NewDefaultTokenConfig (accessFirstRuntime ''id2'') renewedGrant
     \<lparr>data = exampleStored ''id1'' 0, pending = None\<rparr> =
   (None,
    \<lparr>data = (exampleStored ''id1'' 0)(''oauth2_access'' :=
        (exampleStored ''id1'' 0 ''oauth2_access'')(''A9'' \<mapsto>
           TokenDoc \<lparr>tID = ''A9'', tBasicID = ''id2'', tExpiredAt = seconds 5400\<rparr>)),
     pending = None\<rparr>)"
proof -
  let ?s1 = "\<lparr>data = exampleStored ''id1'' 0, pending = None\<rparr>"
  let ?ps = "Create_payloads NewDefaultTokenConfig ''id2'' ''{}'' renewedGrant"
  have ex: "Create_expiry renewedGrant = (seconds 5400, seconds 7200)"
    by (simp add: Create_expiry_def renewedGrant_def Let_def Add_def seconds_def Second_def)
  have ps: "?ps =
     [(''oauth2_basic'', BasicDoc \<lparr>bID = ''id2'', bData = ''{}'', bExpiredAt = seconds 7200\<rparr>),
      (''oauth2_access'', TokenDoc \<lparr>tID = ''A9'', tBasicID = ''id2'', tExpiredAt = seconds 5400\<rparr>),
      (''oauth2_refresh'', TokenDoc \<lparr>tID = ''R1'', tBasicID = ''id2'', tExpiredAt = seconds 7200\<rparr>)]"
    by (simp add: Create_payloads_def ex default_names)
       (simp add: renewedGrant_def default_names)
  have rg: "range_map (accessFirstRuntime ''id2'') ?ps =
     [(''oauth2_access'', TokenDoc \<lparr>tID = ''A9'', tBasicID = ''id2'', tExpiredAt = seconds 5400\<rparr>),
      (''oauth2_refresh'', TokenDoc \<lparr>tID = ''R1'', tBasicID = ''id2'', tExpiredAt = seconds 7200\<rparr>),
      (''oauth2_basic'', BasicDoc \<lparr>bID = ''id2'', bData = ''{}'', bExpiredAt = seconds 7200\<rparr>)]"
    by (simp add: ps range_map_def accessFirstRuntime_def)
  have m: "jsonMarshal (accessFirstRuntime ''id2'') renewedGrant = (''{}'', None)"
    by (simp add: accessFirstRuntime_def)
  have code: "Code renewedGrant = []" by (simp add: renewedGrant_def)
  have oid: "NewObjectIDHex (accessFirstRuntime ''id2'') = ''id2''"
    by (simp add: accessFirstRuntime_def)
  have ab: "abortResult (accessFirstRuntime ''id2'') = None" by (simp add: accessFirstRuntime_def)
  have ins: "insertPayloads Background (range_map (accessFirstRuntime ''id2'') ?ps)
               (StartTransaction ?s1) =
      (Some DuplicateKey, \<lparr>data = (exampleStored ''id1'' 0)(''oauth2_access'' :=
        (exampleStored ''id1'' 0 ''oauth2_access'')(''A9'' \<mapsto>
           TokenDoc \<lparr>tID = ''A9'', tBasicID = ''id2'', tExpiredAt = seconds 5400\<rparr>)),
         pending = Some []\<rparr>)"
    by (simp add: rg InsertOne_Background StartTransaction_def exampleStored_def
        truncate_ms_seconds)
  show ?thesis
    by (simp add: Create_def dbHandler_def m code oid ins AbortTransaction_def ab Let_def)
qed

lemma renewed_state_not_resolved:
  "\<not> index_rows_resolve NewDefaultTokenConfig
       (snd (Create NewDefaultTokenConfig (accessFirstRuntime ''id2'') renewedGrant
          (snd (Create NewDefaultTokenConfig (exampleRuntime ''id1'') (exampleGrant 0) emptyDB))))"
proof
  let ?s2 = "snd (Create NewDefaultTokenConfig (accessFirstRuntime ''id2'') renewedGrant
          (snd (Create NewDefaultTokenConfig (exampleRuntime ''id1'') (exampleGrant 0) emptyDB)))"
  assume inv: "index_rows_resolve NewDefaultTokenConfig ?s2"
  have row: "data ?s2 ''oauth2_access'' ''A9''
       = Some (TokenDoc \<lparr>tID = ''A9'', tBasicID = ''id2'', tExpiredAt = seconds 5400\<rparr>)"
    by (simp add: Create_exampleGrant Create_renewedGrant)
  have none: "data ?s2 ''oauth2_basic'' ''id2'' = None"
    by (simp add: Create_exampleGrant Create_renewedGrant) (simp add: exampleStored_def)
  from inv have "data ?s2 ''oauth2_access'' ''A9''
       = Some (TokenDoc \<lparr>tID = ''A9'', tBasicID = ''id2'', tExpiredAt = seconds 5400\<rparr>)
     \<longrightarrow> data ?s2 ''oauth2_basic'' ''id2'' \<noteq> None"
    unfolding index_rows_resolve_def default_names
    by (metis decode_tokenData.simps(1) tokenData.select_convs(2))
  with row none show False by simp
qed

section \<open>Claims\<close>

text \<open>
  C1. The claim: after \<^verbatim>\<open>Create\<close> of a grant with an access and a refresh token, the expiry
  of the access row is at most the expiry of the refresh row. The code compares
  \<^verbatim>\<open>aexp.Second()\<close> with \<^verbatim>\<open>rexp.Second()\<close>, the seconds within the minute. For
  \<open>lateGrant\<close> both are 0, so nothing is clamped: the access row expires at second 4200
  and the refresh row at second 3600.
\<close>

theorem Create_lateGrant_access_outlives_refresh:
  "data (snd (Create NewDefaultTokenConfig (exampleRuntime ''id2'') lateGrant emptyDB))
      ''oauth2_access'' ''A2''
     = Some (TokenDoc \<lparr>tID = ''A2'', tBasicID = ''id2'', tExpiredAt = seconds 4200\<rparr>)
   \<and> data (snd (Create NewDefaultTokenConfig (exampleRuntime ''id2'') lateGrant emptyDB))
      ''oauth2_refresh'' ''R2''
     = Some (TokenDoc \<lparr>tID = ''R2'', tBasicID = ''id2'', tExpiredAt = seconds 3600\<rparr>)
   \<and> seconds 4200 > seconds 3600"
proof -
  have "Create NewDefaultTokenConfig (exampleRuntime ''id2'') lateGrant emptyDB =
     (commitResult (exampleRuntime ''id2''),
      emptyDB\<lparr>data := (data emptyDB)
          (BasicCName NewDefaultTokenConfig := (data emptyDB (BasicCName NewDefaultTokenConfig))(NewObjectIDHex (exampleRuntime ''id2'') \<mapsto>
             BasicDoc \<lparr>bID = NewObjectIDHex (exampleRuntime ''id2''), bData = ''{}'', bExpiredAt = truncate_ms (snd (Create_expiry lateGrant))\<rparr>),
           AccessCName NewDefaultTokenConfig := (data emptyDB (AccessCName NewDefaultTokenConfig))(Access lateGrant \<mapsto>
             TokenDoc \<lparr>tID = Access lateGrant, tBasicID = NewObjectIDHex (exampleRuntime ''id2''),
               tExpiredAt = truncate_ms (fst (Create_expiry lateGrant))\<rparr>),
           RefreshCName NewDefaultTokenConfig := (data emptyDB (RefreshCName NewDefaultTokenConfig))(Refresh lateGrant \<mapsto>
             TokenDoc \<lparr>tID = Refresh lateGrant, tBasicID = NewObjectIDHex (exampleRuntime ''id2''),
               tExpiredAt = truncate_ms (snd (Create_expiry lateGrant))\<rparr>)),
        pending := None\<rparr>)"
    by (rule Create_grant_refresh_data)
       (simp_all add: lateGrant_def exampleRuntime_def default_names emptyDB_def)
  then show ?thesis
    by (simp add: Create_expiry_lateGrant default_names truncate_ms_seconds)
       (simp add: lateGrant_def exampleRuntime_def seconds_def)
qed

text \<open>
  C2. The claim: a fault of the database action inside the transaction wrapper reaches the
  caller unchanged. In the code, a callback that returns the fault \<open>e\<close> makes
  \<^verbatim>\<open>colHandler\<close> and \<^verbatim>\<open>dbHandler\<close> return the result of \<^verbatim>\<open>AbortTransaction\<close>,
  whatever \<open>e\<close> is.
\<close>

theorem handlers_return_abort_result:
  "fst (colHandler rt name (\<lambda>ctx c v s. (Some e, v, s)) v0 s0) = abortResult rt
   \<and> fst (dbHandler rt (\<lambda>ctx v s. (Some e, v, s)) v0 s0) = abortResult rt"
  by (simp add: colHandler_def dbHandler_def AbortTransaction_def)

text \<open>
  C3. The claim: \<^verbatim>\<open>GetByAccess\<close> and \<^verbatim>\<open>GetByRefresh\<close> fail with the driver's
  no-document error when a step misses, and skip the second step when the first yields an
  empty \<^verbatim>\<open>basicID\<close>. In the code, when the abort succeeds, a lookup of any token in
  the empty database runs both steps and returns a zero token record with no error.
\<close>

theorem GetByAccess_miss_returns_no_error:
  "fst (GetByAccess tcfg (rt\<lparr>abortResult := None\<rparr>) token emptyDB) = (Some zeroToken, None)
   \<and> fst (GetByRefresh tcfg (rt\<lparr>abortResult := None\<rparr>) token emptyDB) = (Some zeroToken, None)"
proof -
  let ?rt = "rt\<lparr>abortResult := None\<rparr>"
  have step: "\<exists>s' s''. getBasicID tcfg ?rt cname token emptyDB = (([], None), s')
                 \<and> getData tcfg ?rt [] s' = ((zeroToken, None), s'')" for cname
  proof -
    obtain b e s' where g: "getBasicID tcfg ?rt cname token emptyDB = ((b, e), s')"
      by (metis surj_pair)
    have "fst (getBasicID tcfg ?rt cname token emptyDB) = ([], None)"
      by (simp add: getBasicID_Background emptyDB_def)
    then have be: "b = []" "e = None" using g by simp_all
    have ds: "data s' = data emptyDB"
      using data_getBasicID[of tcfg ?rt cname token emptyDB] g by simp
    obtain tm e' s'' where d: "getData tcfg ?rt [] s' = ((tm, e'), s'')"
      by (metis surj_pair)
    have "fst (getData tcfg ?rt [] s') = (zeroToken, None)"
      by (simp add: getData_Background ds) (simp add: emptyDB_def)
    then have "tm = zeroToken" "e' = None" using d by simp_all
    then show ?thesis using g be d by simp
  qed
  have "fst (GetByAccess tcfg ?rt token emptyDB) = (Some zeroToken, None)"
    using step[of "AccessCName tcfg"] by (auto simp: GetByAccess_def)
  moreover have "fst (GetByRefresh tcfg ?rt token emptyDB) = (Some zeroToken, None)"
    using step[of "RefreshCName tcfg"] by (auto simp: GetByRefresh_def)
  ultimately show ?thesis by simp
qed

text \<open>
  C4. The claim: \<^verbatim>\<open>Create\<close> of a token record with a non-empty code inserts exactly one
  basic payload, keyed by the code, with expiry \<^verbatim>\<open>CodeCreateAt + CodeExpiresIn\<close>. On the
  code: a code created at 100.123456789 s with 600 s to live is stored with expiry
  700.123 s, the instant cut to the millisecond; and a second \<^verbatim>\<open>Create\<close> with the stored
  code \<open>C3\<close> inserts nothing, the payload with the earlier expiry stays.
\<close>

theorem Create_code_exact_expiry_counterexample:
  "data (snd (Create NewDefaultTokenConfig (exampleRuntime ''id3'')
            (codeGrant\<lparr>CodeCreateAt := 100123456789\<rparr>) emptyDB)) ''oauth2_basic'' ''C3''
     = Some (BasicDoc \<lparr>bID = ''C3'', bData = ''{}'', bExpiredAt = 700123000000\<rparr>)
   \<and> CodeCreateAt (codeGrant\<lparr>CodeCreateAt := 100123456789\<rparr>)
       + CodeExpiresIn (codeGrant\<lparr>CodeCreateAt := 100123456789\<rparr>) = 700123456789
   \<and> data (snd (Create NewDefaultTokenConfig (exampleRuntime ''id4'')
            (codeGrant\<lparr>CodeExpiresIn := seconds 900\<rparr>)
            (snd (Create NewDefaultTokenConfig (exampleRuntime ''id3'') codeGrant emptyDB))))
     = data (snd (Create NewDefaultTokenConfig (exampleRuntime ''id3'') codeGrant emptyDB))
   \<and> data (snd (Create NewDefaultTokenConfig (exampleRuntime ''id3'') codeGrant emptyDB))
        ''oauth2_basic'' ''C3''
     = Some (BasicDoc \<lparr>bID = ''C3'', bData = ''{}'', bExpiredAt = seconds 700\<rparr>)"
proof -
  let ?g = "codeGrant\<lparr>CodeCreateAt := 100123456789\<rparr>"
  let ?h = "codeGrant\<lparr>CodeExpiresIn := seconds 900\<rparr>"
  have m: "jsonMarshal (exampleRuntime i) g = (''{}'', None)" for i g
    by (simp add: exampleRuntime_def)
  have e: "data emptyDB ''oauth2_basic'' ''C3'' = None" by (simp add: emptyDB_def)
  have g: "Code ?g \<noteq> []" "Code ?g = ''C3''" "Code codeGrant \<noteq> []" "Code codeGrant = ''C3''"
    "Code ?h \<noteq> []" "Code ?h = ''C3''"
    by (simp_all add: codeGrant_def)
  have c1: "data (snd (Create NewDefaultTokenConfig (exampleRuntime ''id3'') ?g emptyDB))
              ''oauth2_basic'' ''C3''
     = Some (BasicDoc \<lparr>bID = ''C3'', bData = ''{}'', bExpiredAt = 700123000000\<rparr>)"
    using e by (simp add: Create_code_accepted[OF g(1) m] default_names g(2))
               (simp add: codeGrant_def Add_def seconds_def truncate_ms_def)
  have c2: "CodeCreateAt ?g + CodeExpiresIn ?g = 700123456789"
    by (simp add: codeGrant_def seconds_def)
  have c4: "data (snd (Create NewDefaultTokenConfig (exampleRuntime ''id3'') codeGrant emptyDB))
        ''oauth2_basic'' ''C3''
     = Some (BasicDoc \<lparr>bID = ''C3'', bData = ''{}'', bExpiredAt = seconds 700\<rparr>)"
    using e by (simp add: Create_code_accepted[OF g(3) m] default_names g(4))
               (simp add: codeGrant_def Add_def seconds_def truncate_ms_def)
  then have c3: "data (snd (Create NewDefaultTokenConfig (exampleRuntime ''id4'') ?h
            (snd (Create NewDefaultTokenConfig (exampleRuntime ''id3'') codeGrant emptyDB))))
     = data (snd (Create NewDefaultTokenConfig (exampleRuntime ''id3'') codeGrant emptyDB))"
    by (simp add: Create_code_rejected[OF g(5) m] default_names g(6))
  show ?thesis using c1 c2 c3 c4 by simp
qed

text \<open>
  C4, amended. \<^verbatim>\<open>Create\<close> of a token record with a non-empty code inserts no access
  row and no refresh row. When the record serialises and the code is not yet a key of the
  basic collection, the stored documents grow by exactly one basic payload, keyed by the
  code, whose expiry is \<^verbatim>\<open>CodeCreateAt + CodeExpiresIn\<close> cut to the millisecond; otherwise
  the stored documents are as before.
\<close>

theorem Create_code_at_most_one_payload:
  assumes "Code info \<noteq> []"
    and "BasicCName tcfg \<noteq> AccessCName tcfg" "BasicCName tcfg \<noteq> RefreshCName tcfg"
  shows "data (snd (Create tcfg rt info s)) =
           (if snd (jsonMarshal rt info) = None \<and> data s (BasicCName tcfg) (Code info) = None
            then (data s)(BasicCName tcfg := (data s (BasicCName tcfg))(Code info \<mapsto>
                   BasicDoc \<lparr>bID = Code info, bData = fst (jsonMarshal rt info),
                     bExpiredAt = truncate_ms (CodeCreateAt info + CodeExpiresIn info)\<rparr>))
            else data s)
       \<and> data (snd (Create tcfg rt info s)) (AccessCName tcfg) = data s (AccessCName tcfg)
       \<and> data (snd (Create tcfg rt info s)) (RefreshCName tcfg) = data s (RefreshCName tcfg)"
proof -
  obtain jv e where m: "jsonMarshal rt info = (jv, e)" by (cases "jsonMarshal rt info")
  have main: "data (snd (Create tcfg rt info s)) =
           (if snd (jsonMarshal rt info) = None \<and> data s (BasicCName tcfg) (Code info) = None
            then (data s)(BasicCName tcfg := (data s (BasicCName tcfg))(Code info \<mapsto>
                   BasicDoc \<lparr>bID = Code info, bData = fst (jsonMarshal rt info),
                     bExpiredAt = truncate_ms (CodeCreateAt info + CodeExpiresIn info)\<rparr>))
            else data s)"
  proof (cases e)
    case (Some err)
    then show ?thesis using m by (simp add: Create_marshal_error)
  next
    case None
    show ?thesis
    proof (cases "data s (BasicCName tcfg) (Code info) = None")
      case True
      then show ?thesis using assms(1) m None by (simp add: Create_code_accepted Add_def)
    next
      case False
      then show ?thesis using assms(1) m None by (auto simp add: Create_code_rejected)
    qed
  qed
  show ?thesis
    using main assms by (simp add: Create_code_other_collections)
qed

theorem Create_code_at_most_one_payload_witness:
  "data (snd (Create NewDefaultTokenConfig (exampleRuntime ''id3'')
            (codeGrant\<lparr>CodeCreateAt := 100123456789\<rparr>) emptyDB)) =
      (data emptyDB)(''oauth2_basic'' := (data emptyDB ''oauth2_basic'')(''C3'' \<mapsto>
         BasicDoc \<lparr>bID = ''C3'', bData = ''{}'', bExpiredAt = 700123000000\<rparr>))
   \<and> data (snd (Create NewDefaultTokenConfig (exampleRuntime ''id3'')
            (codeGrant\<lparr>CodeCreateAt := 100123456789\<rparr>) emptyDB)) ''oauth2_access''
       = data emptyDB ''oauth2_access''
   \<and> data (snd (Create NewDefaultTokenConfig (exampleRuntime ''id3'')
            (codeGrant\<lparr>CodeCreateAt := 100123456789\<rparr>) emptyDB)) ''oauth2_refresh''
       = data emptyDB ''oauth2_refresh''"
  using Create_code_at_most_one_payload[of "codeGrant\<lparr>CodeCreateAt := 100123456789\<rparr>"
      NewDefaultTokenConfig "exampleRuntime ''id3''" emptyDB]
  by (simp add: codeGrant_def exampleRuntime_def NewDefaultTokenConfig_def emptyDB_def
      seconds_def truncate_ms_def)

text \<open>
  C5. The claim: when one insert of a grant fails, the grant is aborted and the stored
  state is as before. \<^verbatim>\<open>dbHandler\<close> hands the callback a background context, so each
  insert is applied outside the started transaction. Creating \<open>exampleGrant 0\<close> a second
  time, with the collections visited basic, access, refresh: the new basic payload
  \<open>id2\<close> is stored, the access insert meets a stored key, the call returns no error, and
  the payload \<open>id2\<close> stays while the access row still names \<open>id1\<close>.
\<close>

theorem Create_twice_leaves_orphan_payload:
  "fst (Create NewDefaultTokenConfig (exampleRuntime ''id2'') (exampleGrant 0)
          (snd (Create NewDefaultTokenConfig (exampleRuntime ''id1'') (exampleGrant 0) emptyDB))) = None
   \<and> data (snd (Create NewDefaultTokenConfig (exampleRuntime ''id1'') (exampleGrant 0) emptyDB))
        ''oauth2_basic'' ''id2'' = None
   \<and> data (snd (Create NewDefaultTokenConfig (exampleRuntime ''id2'') (exampleGrant 0)
          (snd (Create NewDefaultTokenConfig (exampleRuntime ''id1'') (exampleGrant 0) emptyDB))))
        ''oauth2_basic'' ''id2''
       = Some (BasicDoc \<lparr>bID = ''id2'', bData = ''{}'', bExpiredAt = seconds 7200\<rparr>)
   \<and> data (snd (Create NewDefaultTokenConfig (exampleRuntime ''id2'') (exampleGrant 0)
          (snd (Create NewDefaultTokenConfig (exampleRuntime ''id1'') (exampleGrant 0) emptyDB))))
        ''oauth2_access'' ''A1''
       = Some (TokenDoc \<lparr>tID = ''A1'', tBasicID = ''id1'', tExpiredAt = seconds 3600\<rparr>)"
proof -
  let ?s1 = "\<lparr>data = exampleStored ''id1'' 0, pending = None\<rparr>"
  let ?ps = "Create_payloads NewDefaultTokenConfig ''id2'' ''{}'' (exampleGrant 0)"
  have ps: "?ps =
     [(''oauth2_basic'', BasicDoc \<lparr>bID = ''id2'', bData = ''{}'', bExpiredAt = seconds 7200\<rparr>),
      (''oauth2_access'', TokenDoc \<lparr>tID = ''A1'', tBasicID = ''id2'', tExpiredAt = seconds 3600\<rparr>),
      (''oauth2_refresh'', TokenDoc \<lparr>tID = ''R1'', tBasicID = ''id2'', tExpiredAt = seconds 7200\<rparr>)]"
    by (simp add: Create_payloads_def Create_expiry_exampleGrant default_names Add_def)
       (simp add: exampleGrant_def default_names)
  have rg: "range_map (exampleRuntime ''id2'') ?ps = ?ps"
    by (simp add: ps range_map_def exampleRuntime_def)
  have c: "Create NewDefaultTokenConfig (exampleRuntime ''id2'') (exampleGrant 0) ?s1 =
     (None, ?s1\<lparr>data := (exampleStored ''id1'' 0)(''oauth2_basic'' :=
        (exampleStored ''id1'' 0 ''oauth2_basic'')(''id2'' \<mapsto>
           BasicDoc \<lparr>bID = ''id2'', bData = ''{}'', bExpiredAt = seconds 7200\<rparr>))\<rparr>)"
  proof -
    have m: "jsonMarshal (exampleRuntime ''id2'') (exampleGrant 0) = (''{}'', None)"
      by (simp add: exampleRuntime_def)
    have code: "Code (exampleGrant 0) = []" by (simp add: exampleGrant_def)
    have oid: "NewObjectIDHex (exampleRuntime ''id2'') = ''id2''" by (simp add: exampleRuntime_def)
    have ab: "abortResult (exampleRuntime ''id2'') = None" by (simp add: exampleRuntime_def)
    have ins: "insertPayloads Background ?ps (StartTransaction ?s1) =
        (Some DuplicateKey, \<lparr>data = (exampleStored ''id1'' 0)(''oauth2_basic'' :=
          (exampleStored ''id1'' 0 ''oauth2_basic'')(''id2'' \<mapsto>
             BasicDoc \<lparr>bID = ''id2'', bData = ''{}'', bExpiredAt = seconds 7200\<rparr>)),
           pending = Some []\<rparr>)"
      by (simp add: ps InsertOne_Background StartTransaction_def exampleStored_def
          truncate_ms_seconds)
    show ?thesis
      by (simp add: Create_def dbHandler_def m code oid rg ins AbortTransaction_def ab Let_def)
  qed
  show ?thesis
    by (simp add: Create_exampleGrant c) (simp add: exampleStored_def Add_def truncate_ms_seconds)
qed

text \<open>
  C6. The claim: \<^verbatim>\<open>Set\<close> then \<^verbatim>\<open>GetByID\<close> returns the record, and after
  \<^verbatim>\<open>RemoveByID\<close> a \<^verbatim>\<open>GetByID\<close> fails with the no-document error. The first half
  is \<open>Set_then_GetByID\<close>. For the second half the code, when the abort succeeds, returns
  a nil client and no error.
\<close>

theorem GetByID_after_RemoveByID_no_error:
  "fst (GetByID ccfg (rt\<lparr>abortResult := None\<rparr>) (ID info)
          (snd (RemoveByID ccfg rt' (ID info) (snd (Set_client ccfg rt'' info s)))))
     = (None, None)"
  by (simp add: GetByID_Background RemoveByID_data)




text \<open>
  C8. \<^verbatim>\<open>RemoveByAccess\<close> leaves the refresh collection and the basic collection as
  they were, and removes from the access collection the row of the given token only.
\<close>

theorem RemoveByAccess_no_cascade:
  assumes "AccessCName tcfg \<noteq> RefreshCName tcfg" "AccessCName tcfg \<noteq> BasicCName tcfg"
  shows "data (snd (RemoveByAccess tcfg rt access s)) (RefreshCName tcfg) = data s (RefreshCName tcfg)
       \<and> data (snd (RemoveByAccess tcfg rt access s)) (BasicCName tcfg) = data s (BasicCName tcfg)
       \<and> data (snd (RemoveByAccess tcfg rt access s)) (AccessCName tcfg)
           = (data s (AccessCName tcfg))(access := None)"
  using assms by (simp add: RemoveByAccess_data)

theorem RemoveByAccess_no_cascade_witness:
  "data (snd (RemoveByAccess NewDefaultTokenConfig (exampleRuntime ''id9'') ''A1''
           (snd (Create NewDefaultTokenConfig (exampleRuntime ''id1'') (exampleGrant 0) emptyDB))))
      ''oauth2_refresh'' ''R1''
     = Some (TokenDoc \<lparr>tID = ''R1'', tBasicID = ''id1'', tExpiredAt = seconds 7200\<rparr>)
   \<and> data (snd (RemoveByAccess NewDefaultTokenConfig (exampleRuntime ''id9'') ''A1''
           (snd (Create NewDefaultTokenConfig (exampleRuntime ''id1'') (exampleGrant 0) emptyDB))))
      ''oauth2_basic'' ''id1''
     = Some (BasicDoc \<lparr>bID = ''id1'', bData = ''{}'', bExpiredAt = seconds 7200\<rparr>)
   \<and> data (snd (RemoveByAccess NewDefaultTokenConfig (exampleRuntime ''id9'') ''A1''
           (snd (Create NewDefaultTokenConfig (exampleRuntime ''id1'') (exampleGrant 0) emptyDB))))
      ''oauth2_access'' ''A1'' = None"
  using RemoveByAccess_no_cascade[of NewDefaultTokenConfig "exampleRuntime ''id9''" "''A1''"
      "snd (Create NewDefaultTokenConfig (exampleRuntime ''id1'') (exampleGrant 0) emptyDB)"]
  by (simp add: Create_exampleGrant exampleStored_def default_names Add_def truncate_ms_seconds)

text \<open>
  C9. The claim: in every state reached by successful calls of \<^verbatim>\<open>Create\<close>, each row of
  the access and refresh collections names a stored basic payload. A call whose inserts
  are all accepted keeps that property (\<open>index_rows_resolve_Create\<close>). But \<^verbatim>\<open>Create\<close>
  also returns no error when an insert is refused, and the inserts before it stay: after
  \<open>exampleGrant 0\<close>, the renewed grant with the collections visited access, refresh, basic
  stores the row \<open>A9\<close> naming \<open>id2\<close>, is refused on \<open>R1\<close>, never inserts the payload
  \<open>id2\<close>, and both calls return no error (\<open>renewed_state_not_resolved\<close>: the
  property fails in that state).
\<close>

theorem Create_renewed_leaves_dangling_row:
  "fst (Create NewDefaultTokenConfig (exampleRuntime ''id1'') (exampleGrant 0) emptyDB) = None
   \<and> fst (Create NewDefaultTokenConfig (accessFirstRuntime ''id2'') renewedGrant
          (snd (Create NewDefaultTokenConfig (exampleRuntime ''id1'') (exampleGrant 0) emptyDB))) = None
   \<and> data (snd (Create NewDefaultTokenConfig (accessFirstRuntime ''id2'') renewedGrant
          (snd (Create NewDefaultTokenConfig (exampleRuntime ''id1'') (exampleGrant 0) emptyDB))))
        ''oauth2_access'' ''A9''
       = Some (TokenDoc \<lparr>tID = ''A9'', tBasicID = ''id2'', tExpiredAt = seconds 5400\<rparr>)
   \<and> data (snd (Create NewDefaultTokenConfig (accessFirstRuntime ''id2'') renewedGrant
          (snd (Create NewDefaultTokenConfig (exampleRuntime ''id1'') (exampleGrant 0) emptyDB))))
        ''oauth2_basic'' ''id2'' = None"
  by (simp add: Create_exampleGrant Create_renewedGrant) (simp add: exampleStored_def)

text \<open>
  C10. \<^verbatim>\<open>Create\<close> of a token record with a non-empty code, whatever access and
  refresh tokens it carries: the access and refresh collections are as before, and the
  index lookup of either token gives what it gave before.
\<close>

theorem Create_code_ignores_tokens:
  assumes "Code info \<noteq> []"
    and "BasicCName tcfg \<noteq> AccessCName tcfg" "BasicCName tcfg \<noteq> RefreshCName tcfg"
  shows "data (snd (Create tcfg rt info s)) (AccessCName tcfg) = data s (AccessCName tcfg)
       \<and> data (snd (Create tcfg rt info s)) (RefreshCName tcfg) = data s (RefreshCName tcfg)
       \<and> fst (getBasicID tcfg rt' (AccessCName tcfg) (Access info) (snd (Create tcfg rt info s)))
           = fst (getBasicID tcfg rt' (AccessCName tcfg) (Access info) s)
       \<and> fst (getBasicID tcfg rt' (RefreshCName tcfg) (Refresh info) (snd (Create tcfg rt info s)))
           = fst (getBasicID tcfg rt' (RefreshCName tcfg) (Refresh info) s)"
  using assms by (simp add: Create_code_other_collections getBasicID_Background)

theorem Create_code_ignores_tokens_witness:
  "Access codeGrant \<noteq> [] \<and> Refresh codeGrant \<noteq> []
   \<and> data (snd (Create NewDefaultTokenConfig (exampleRuntime ''id3'') codeGrant emptyDB)) ''oauth2_access'' ''A3'' = None
   \<and> data (snd (Create NewDefaultTokenConfig (exampleRuntime ''id3'') codeGrant emptyDB)) ''oauth2_refresh'' ''R3'' = None
   \<and> fst (getBasicID NewDefaultTokenConfig (exampleRuntime ''id4'') ''oauth2_access'' ''A3''
         (snd (Create NewDefaultTokenConfig (exampleRuntime ''id3'') codeGrant emptyDB))) = ([], None)
   \<and> fst (getBasicID NewDefaultTokenConfig (exampleRuntime ''id4'') ''oauth2_refresh'' ''R3''
         (snd (Create NewDefaultTokenConfig (exampleRuntime ''id3'') codeGrant emptyDB))) = ([], None)"
  using Create_code_ignores_tokens[of codeGrant NewDefaultTokenConfig "exampleRuntime ''id3''" emptyDB
      "exampleRuntime ''id4''"]
  by (simp add: codeGrant_def NewDefaultTokenConfig_def emptyDB_def getBasicID_Background
      exampleRuntime_def)

end
